theory Spec2Isabelle
  imports Complex_Main "HOL-Library.Word"
begin

section \<open>Data model\<close>

text \<open>
  The biometric pipeline of the authentication system: the two services
  (\<^verbatim>\<open>app/services/biometric_service.py\<close> for faces,
  \<^verbatim>\<open>app/services/fingerprint_service.py\<close> for fingerprints) and the
  endpoints of \<^verbatim>\<open>app/routers/biometric.py\<close> that drive them.

  Floating-point numbers are modelled by exact reals, Python integers by \<open>int\<close>, byte
  strings by lists of 8-bit words. A row of the table \<^verbatim>\<open>biometric_templates\<close> is a
  record; the table is the list of its rows, and an ORM object is the position of its row
  in that list, so that mutating an object returned by a query is an update of the list at
  that position.
\<close>

type_synonym bytes = "8 word list"

datatype BiometricType = FACE | FINGERPRINT

text \<open>
  \<^verbatim>\<open>app/models/biometric.py\<close>. The column \<^verbatim>\<open>id\<close> is called \<open>id_tpl\<close> here
  (\<open>id\<close> is the identity function of HOL). \<open>last_used\<close> is a timestamp. The type
  \<open>'b\<close> is the type of the encrypted payload.
\<close>

record 'b BiometricTemplate =
  id_tpl :: int
  user_id :: int
  biometric_type :: BiometricType
  template_data :: 'b
  quality_score :: real
  confidence_score :: real
  is_active :: bool
  is_primary :: bool
  verification_count :: int
  last_used :: "nat option"

text \<open>
  \<^verbatim>\<open>BiometricResult\<close> of \<^verbatim>\<open>app/schemas/biometric.py\<close>; its field
  \<^verbatim>\<open>quality_score\<close> is \<open>quality_score_res\<close> here, and the wall-clock
  \<^verbatim>\<open>processing_time_ms\<close> is left out.
\<close>

record BiometricResult =
  success :: bool
  message :: string
  similarity_score :: "real option"
  threshold_used :: "real option"
  face_detected :: bool
  quality_score_res :: "real option"
  template_id :: "int option"

definition result :: "bool \<Rightarrow> string \<Rightarrow> BiometricResult" where
  \<comment> \<open>the constructor with the defaults of the schema\<close>
  "result ok msg =
     \<lparr>success = ok, message = msg, similarity_score = None, threshold_used = None,
      face_detected = False, quality_score_res = None, template_id = None\<rparr>"

text \<open>
  What OpenCV reports for one video frame: the number of faces found by
  \<^verbatim>\<open>detect_faces\<close>, and for the first face the outcome of
  \<^verbatim>\<open>extract_face_encoding\<close> (\<open>None\<close> when it returns \<^verbatim>\<open>None\<close>) and of
  \<^verbatim>\<open>calculate_quality_score\<close>.
\<close>

record frame =
  faces_detected :: nat
  encoding :: "real list option"
  quality :: real

text \<open>
  A frame that gives a verification no usable feature vector: no face is found in it, or
  the encoding of the face cannot be extracted, or the encoding is all-zero.
\<close>

definition unusable :: "frame \<Rightarrow> bool" where
  "unusable f \<longleftrightarrow>
     faces_detected f = 0 \<or> encoding f = None
     \<or> (\<exists>enc. encoding f = Some enc \<and> (\<forall>x\<in>set enc. x = 0))"

text \<open>
  The libraries the services call, as parameters: \<^verbatim>\<open>base64.b64decode\<close>
  (\<open>None\<close> when it raises), \<^verbatim>\<open>hashlib.sha256(..).digest()\<close>, the frames
  \<^verbatim>\<open>cv2.VideoCapture\<close> reads from a video, and the two functions of
  \<^verbatim>\<open>app/utils/security.py\<close> built on Fernet. \<open>encrypt_data\<close> stands for
  \<^verbatim>\<open>encrypt_data(v.tobytes()).encode()\<close> and \<open>decrypt_data\<close> for
  \<^verbatim>\<open>np.frombuffer(decrypt_data(d.decode()), dtype=np.float64)\<close>, which is \<open>None\<close>
  when either call raises.
\<close>

record 'b env =
  b64decode :: "string \<Rightarrow> bytes option"
  sha256 :: "bytes \<Rightarrow> bytes"
  video_frames :: "bytes \<Rightarrow> frame list"
  encrypt_data :: "real list \<Rightarrow> 'b"
  decrypt_data :: "'b \<Rightarrow> real list option"

text \<open>The rows a query returns, as positions in the table.\<close>

definition query :: "('a \<Rightarrow> bool) \<Rightarrow> 'a list \<Rightarrow> nat list" where
  "query P db = filter (\<lambda>i. P (db ! i)) [0..<length db]"

definition next_id :: "'b BiometricTemplate list \<Rightarrow> int" where
  \<comment> \<open>the integer primary key the database gives a new row\<close>
  "next_id db = fold max (map id_tpl db) 0 + 1"

definition record_use :: "nat \<Rightarrow> 'b BiometricTemplate \<Rightarrow> 'b BiometricTemplate" where
  \<comment> \<open>\<^verbatim>\<open>template.verification_count += 1; template.last_used = datetime.now()\<close>\<close>
  "record_use now t = t\<lparr>verification_count := verification_count t + 1, last_used := Some now\<rparr>"


section \<open>Similarity scorers\<close>

fun np_dot :: "real list \<Rightarrow> real list \<Rightarrow> real" where
  "np_dot (x # xs) (y # ys) = x * y + np_dot xs ys"
| "np_dot _ _ = 0"

definition np_linalg_norm :: "real list \<Rightarrow> real" where
  "np_linalg_norm v = sqrt (\<Sum>x\<leftarrow>v. \<bar>x\<bar>\<^sup>2)"

text \<open>
  \<^verbatim>\<open>BiometricService.calculate_similarity\<close>. \<^verbatim>\<open>np.dot\<close> raises on vectors of
  different lengths, and the \<^verbatim>\<open>except\<close> branch returns 0.0.
\<close>

definition calculate_similarity :: "real list \<Rightarrow> real list \<Rightarrow> real" where
  "calculate_similarity features1 features2 =
     (if length features1 \<noteq> length features2 then 0
      else
        let dot_product = np_dot features1 features2;
            norm1 = np_linalg_norm features1;
            norm2 = np_linalg_norm features2
        in if norm1 = 0 \<or> norm2 = 0 then 0
           else max 0 (dot_product / (norm1 * norm2)))"

text \<open>\<^verbatim>\<open>FingerprintService.calculate_fingerprint_similarity\<close>.\<close>

definition calculate_fingerprint_similarity :: "real list \<Rightarrow> real list \<Rightarrow> real" where
  "calculate_fingerprint_similarity features1 features2 =
     (if length features1 \<noteq> length features2 then 0
      else
        let dot_product = np_dot features1 features2;
            norm1 = np_linalg_norm features1;
            norm2 = np_linalg_norm features2
        in if norm1 = 0 \<or> norm2 = 0 then 0
           else max 0 (min 1 (dot_product / (norm1 * norm2))))"


section \<open>Face service\<close>

definition BIOMETRIC_THRESHOLD :: real where
  \<comment> \<open>\<^verbatim>\<open>app/config.py\<close>\<close>
  "BIOMETRIC_THRESHOLD = 0.6"

definition decode_video_data :: "'b env \<Rightarrow> string \<Rightarrow> bytes option" where
  \<comment> \<open>\<open>None\<close> is \<^verbatim>\<open>ValueError("Invalid video data format")\<close>\<close>
  "decode_video_data e video = b64decode e video"

definition extract_frames :: "'b env \<Rightarrow> bytes \<Rightarrow> frame list" where
  \<comment> \<open>at most 30 frames are read\<close>
  "extract_frames e video_bytes = take 30 (video_frames e video_bytes)"

text \<open>
  The loop of \<^verbatim>\<open>enroll_biometric\<close> over the frames; the accumulator is
  \<open>(best_encoding, best_quality, face_detected)\<close>.
\<close>

fun best_frame ::
  "frame list \<Rightarrow> real list option \<times> real \<times> bool \<Rightarrow> real list option \<times> real \<times> bool" where
  "best_frame [] acc = acc"
| "best_frame (f # fs) (best_encoding, best_quality, fd) =
     (if faces_detected f > 0 then
        (case encoding f of
           None \<Rightarrow> best_frame fs (best_encoding, best_quality, True)
         | Some enc \<Rightarrow>
             if quality f > best_quality
             then best_frame fs (Some enc, quality f, True)
             else best_frame fs (best_encoding, best_quality, True))
      else best_frame fs (best_encoding, best_quality, fd))"

definition enroll_biometric ::
  "'b env \<Rightarrow> int \<Rightarrow> string \<Rightarrow> 'b BiometricTemplate list
     \<Rightarrow> BiometricResult \<times> 'b BiometricTemplate list" where
  "enroll_biometric e uid video db =
     (case decode_video_data e video of
        None \<Rightarrow> (result False ''Enrollment failed: Invalid video data format'', db)
      | Some video_bytes \<Rightarrow>
          let frames = extract_frames e video_bytes in
          if frames = [] then (result False ''No frames could be extracted from video'', db)
          else
            (case best_frame frames (None, 0, False) of
               (None, best_quality, fd) \<Rightarrow>
                 ((result False ''No valid face encoding could be extracted'')
                    \<lparr>face_detected := fd, quality_score_res := Some best_quality\<rparr>, db)
             | (Some best_encoding, best_quality, fd) \<Rightarrow>
                 let template =
                       \<lparr>id_tpl = next_id db, user_id = uid, biometric_type = FACE,
                        template_data = encrypt_data e best_encoding,
                        quality_score = best_quality, confidence_score = 0.9,
                        is_active = True, is_primary = True,
                        verification_count = 0, last_used = None\<rparr>;
                     db' = map (\<lambda>t. if user_id t = uid \<and> is_primary t
                                      then t\<lparr>is_primary := False\<rparr> else t) db
                 in ((result True ''Biometric template enrolled successfully'')
                       \<lparr>face_detected := True, quality_score_res := Some best_quality,
                        template_id := Some (id_tpl template)\<rparr>,
                     db' @ [template])))"

text \<open>
  The inner loop of \<^verbatim>\<open>verify_biometric\<close> over the templates, for one encoding; the
  accumulator is \<open>(best_score, table)\<close>. A template whose payload does not decrypt is
  skipped (\<^verbatim>\<open>continue\<close>).
\<close>

fun compare_templates ::
  "'b env \<Rightarrow> nat \<Rightarrow> real list \<Rightarrow> nat list \<Rightarrow> real \<times> 'b BiometricTemplate list
     \<Rightarrow> real \<times> 'b BiometricTemplate list" where
  "compare_templates e now enc [] acc = acc"
| "compare_templates e now enc (i # rest) (best_score, db) =
     (case decrypt_data e (template_data (db ! i)) of
        None \<Rightarrow> compare_templates e now enc rest (best_score, db)
      | Some stored_encoding \<Rightarrow>
          let similarity = calculate_similarity stored_encoding enc in
          if similarity > best_score
          then compare_templates e now enc rest (similarity, db[i := record_use now (db ! i)])
          else compare_templates e now enc rest (best_score, db))"

text \<open>The outer loop over the frames; the accumulator is \<open>(best_score, face_detected, table)\<close>.\<close>

fun process_frames ::
  "'b env \<Rightarrow> nat \<Rightarrow> nat list \<Rightarrow> frame list \<Rightarrow> real \<times> bool \<times> 'b BiometricTemplate list
     \<Rightarrow> real \<times> bool \<times> 'b BiometricTemplate list" where
  "process_frames e now templates [] acc = acc"
| "process_frames e now templates (f # fs) (best_score, fd, db) =
     (if faces_detected f > 0 then
        (case encoding f of
           None \<Rightarrow> process_frames e now templates fs (best_score, True, db)
         | Some enc \<Rightarrow>
             (case compare_templates e now enc templates (best_score, db) of
                (best_score', db') \<Rightarrow> process_frames e now templates fs (best_score', True, db')))
      else process_frames e now templates fs (best_score, fd, db))"

text \<open>
  The query at the head of \<^verbatim>\<open>verify_biometric\<close> (\<^verbatim>\<open>user_id == user_id\<close>,
  \<^verbatim>\<open>is_active == True\<close>): the templates the face verification compares.
\<close>

definition get_active_templates :: "int \<Rightarrow> 'b BiometricTemplate list \<Rightarrow> nat list" where
  "get_active_templates uid db = query (\<lambda>t. user_id t = uid \<and> is_active t) db"

definition verify_biometric ::
  "'b env \<Rightarrow> nat \<Rightarrow> int \<Rightarrow> string \<Rightarrow> real option \<Rightarrow> 'b BiometricTemplate list
     \<Rightarrow> BiometricResult \<times> 'b BiometricTemplate list" where
  "verify_biometric e now uid video threshold_opt db =
     (let threshold = (case threshold_opt of None \<Rightarrow> BIOMETRIC_THRESHOLD | Some t \<Rightarrow> t);
          templates = get_active_templates uid db
      in if templates = [] then
           ((result False ''No biometric templates found for user'')
              \<lparr>threshold_used := Some threshold\<rparr>, db)
         else
           (case decode_video_data e video of
              None \<Rightarrow>
                ((result False ''Verification failed: Invalid video data format'')
                   \<lparr>threshold_used := Some threshold\<rparr>, db)
            | Some video_bytes \<Rightarrow>
                let frames = extract_frames e video_bytes in
                if frames = [] then
                  ((result False ''No frames could be extracted from video'')
                     \<lparr>threshold_used := Some threshold\<rparr>, db)
                else
                  (case process_frames e now templates frames (0, False, db) of
                     (best_score, fd, db') \<Rightarrow>
                       let ok = (best_score \<ge> threshold) in
                       ((result ok (if ok then ''Verification successful''
                                    else ''Verification failed''))
                          \<lparr>similarity_score := Some best_score,
                           threshold_used := Some threshold,
                           face_detected := fd\<rparr>, db'))))"

definition get_user_templates :: "int \<Rightarrow> 'b BiometricTemplate list \<Rightarrow> nat list" where
  "get_user_templates uid db = query (\<lambda>t. user_id t = uid) db"




section \<open>Fingerprint service\<close>

definition default_threshold :: real where
  "default_threshold = 0.75"

definition decode_fingerprint_data :: "'b env \<Rightarrow> string \<Rightarrow> bytes option" where
  \<comment> \<open>\<open>None\<close> is \<^verbatim>\<open>ValueError("Invalid fingerprint data format")\<close>\<close>
  "decode_fingerprint_data e fp = b64decode e fp"

definition extract_fingerprint_features :: "'b env \<Rightarrow> bytes \<Rightarrow> real list option" where
  "extract_fingerprint_features e fingerprint_bytes =
     Some (map (\<lambda>b. real (unat b) / 255) (sha256 e fingerprint_bytes))"

definition calculate_entropy :: "bytes \<Rightarrow> real" where
  "calculate_entropy data =
     (\<Sum>v\<leftarrow>map of_nat [0..<256].
        let p = real (count_list data v) / real (length data)
        in if p > 0 then - (p * log 2 p) else 0)"

definition calculate_quality_score :: "bytes \<Rightarrow> real" where
  "calculate_quality_score fingerprint_bytes =
     (let data_size = length fingerprint_bytes;
          entropy = calculate_entropy fingerprint_bytes;
          size_score = min 1 (real data_size / 10000);
          entropy_score = min 1 (entropy / 8)
      in (size_score + entropy_score) / 2)"

definition enroll_fingerprint ::
  "'b env \<Rightarrow> int \<Rightarrow> string \<Rightarrow> 'b BiometricTemplate list
     \<Rightarrow> BiometricResult \<times> 'b BiometricTemplate list" where
  "enroll_fingerprint e uid fp db =
     (case decode_fingerprint_data e fp of
        None \<Rightarrow>
          (result False ''Fingerprint enrollment failed: Invalid fingerprint data format'', db)
      | Some fingerprint_bytes \<Rightarrow>
          (case extract_fingerprint_features e fingerprint_bytes of
             None \<Rightarrow> (result False ''Failed to extract fingerprint features'', db)
           | Some features \<Rightarrow>
               let q = calculate_quality_score fingerprint_bytes;
                   db' = map (\<lambda>t. if user_id t = uid \<and> biometric_type t = FINGERPRINT
                                      \<and> is_active t
                                    then t\<lparr>is_active := False, is_primary := False\<rparr> else t) db;
                   new_template =
                     \<lparr>id_tpl = next_id db, user_id = uid, biometric_type = FINGERPRINT,
                      template_data = encrypt_data e features,
                      quality_score = q, confidence_score = 0.95,
                      is_active = True, is_primary = True,
                      verification_count = 0, last_used = None\<rparr>
               in ((result True ''Fingerprint enrollment successful'')
                     \<lparr>face_detected := True, quality_score_res := Some q,
                      template_id := Some (id_tpl new_template)\<rparr>,
                   db' @ [new_template])))"

text \<open>
  The loop of \<^verbatim>\<open>verify_fingerprint\<close> over the templates; the accumulator is
  \<open>(best_score, best_template)\<close>.
\<close>

fun best_match ::
  "'b env \<Rightarrow> real list \<Rightarrow> 'b BiometricTemplate list \<Rightarrow> nat list \<Rightarrow> real \<times> nat option
     \<Rightarrow> real \<times> nat option" where
  "best_match e input_features db [] acc = acc"
| "best_match e input_features db (i # rest) (best_score, best_template) =
     (case decrypt_data e (template_data (db ! i)) of
        None \<Rightarrow> best_match e input_features db rest (best_score, best_template)
      | Some stored_features \<Rightarrow>
          let similarity = calculate_fingerprint_similarity input_features stored_features in
          if similarity > best_score
          then best_match e input_features db rest (similarity, Some i)
          else best_match e input_features db rest (best_score, best_template))"

text \<open>
  The query at the head of \<^verbatim>\<open>verify_fingerprint\<close>, which is also the query of
  \<^verbatim>\<open>get_user_fingerprint_templates\<close>: the templates the fingerprint verification
  compares.
\<close>

definition get_user_fingerprint_templates ::
  "int \<Rightarrow> 'b BiometricTemplate list \<Rightarrow> nat list" where
  "get_user_fingerprint_templates uid db =
     query (\<lambda>t. user_id t = uid \<and> biometric_type t = FINGERPRINT \<and> is_active t) db"

definition verify_fingerprint ::
  "'b env \<Rightarrow> nat \<Rightarrow> int \<Rightarrow> string \<Rightarrow> real option \<Rightarrow> 'b BiometricTemplate list
     \<Rightarrow> BiometricResult \<times> 'b BiometricTemplate list" where
  "verify_fingerprint e now uid fp threshold_opt db =
     (let threshold = (case threshold_opt of None \<Rightarrow> default_threshold | Some t \<Rightarrow> t);
          templates = get_user_fingerprint_templates uid db
      in if templates = [] then
           ((result False ''No fingerprint templates found for user'')
              \<lparr>threshold_used := Some threshold\<rparr>, db)
         else
           (case decode_fingerprint_data e fp of
              None \<Rightarrow>
                ((result False
                    ''Fingerprint verification failed: Invalid fingerprint data format'')
                   \<lparr>threshold_used := Some threshold\<rparr>, db)
            | Some fingerprint_bytes \<Rightarrow>
                (case extract_fingerprint_features e fingerprint_bytes of
                   None \<Rightarrow>
                     ((result False ''Failed to extract fingerprint features'')
                        \<lparr>threshold_used := Some threshold\<rparr>, db)
                 | Some input_features \<Rightarrow>
                     (case best_match e input_features db templates (0, None) of
                        (best_score, best_template) \<Rightarrow>
                          let verification_success = (best_score \<ge> threshold) in
                          ((result verification_success
                              (if verification_success
                               then ''Fingerprint verification successful''
                               else ''Fingerprint verification failed''))
                             \<lparr>similarity_score := Some best_score,
                              threshold_used := Some threshold,
                              face_detected := True,
                              template_id := map_option (\<lambda>i. id_tpl (db ! i)) best_template\<rparr>,
                           (case best_template of
                              Some i \<Rightarrow>
                                if verification_success
                                then db[i := record_use now (db ! i)] else db
                            | None \<Rightarrow> db))))))"

definition delete_user_fingerprint_templates ::
  "int \<Rightarrow> 'b BiometricTemplate list \<Rightarrow> bool \<times> 'b BiometricTemplate list" where
  "delete_user_fingerprint_templates uid db =
     (True, filter (\<lambda>t. \<not> (user_id t = uid \<and> biometric_type t = FINGERPRINT)) db)"


section \<open>Endpoints\<close>

text \<open>
  The state the endpoints of \<^verbatim>\<open>app/routers/biometric.py\<close> work on: the table of
  templates and, for each user id, the column \<^verbatim>\<open>is_enrolled\<close> of the user's row.
  A response is the returned value or an \<^verbatim>\<open>HTTPException\<close> (status code, detail).
  What an endpoint has committed before it raises stays in the state.
\<close>

record 'b db =
  templates :: "'b BiometricTemplate list"
  is_enrolled :: "int \<Rightarrow> bool"

type_synonym 'a response = "(nat \<times> string) + 'a"



text \<open>
  The replacement step the code of that endpoint has for faces (lines 56 to 58): every
  template of the user is deactivated. The step for fingerprints (line 60) is
  \<open>delete_user_fingerprint_templates\<close>.
\<close>

definition deactivate_user_templates ::
  "int \<Rightarrow> 'b BiometricTemplate list \<Rightarrow> 'b BiometricTemplate list" where
  "deactivate_user_templates uid db =
     map (\<lambda>t. if user_id t = uid then t\<lparr>is_active := False\<rparr> else t) db"


definition set_primary_template ::
  "int \<Rightarrow> int \<Rightarrow> 'b db \<Rightarrow> string response \<times> 'b db" where
  "set_primary_template tid current_user st =
     (let db = templates st;
          user_templates = get_user_templates current_user db
      in case find (\<lambda>i. id_tpl (db ! i) = tid \<and> user_id (db ! i) = current_user)
                user_templates of
           None \<Rightarrow> (Inl (404, ''Template not found''), st)
         | Some target \<Rightarrow>
             if \<not> is_active (db ! target) then
               (Inl (400, ''Cannot set inactive template as primary''), st)
             else
               let db1 = map (\<lambda>t. if user_id t = current_user
                                   then t\<lparr>is_primary := False\<rparr> else t) db;
                   db2 = db1[target := (db1 ! target)\<lparr>is_primary := True\<rparr>]
               in (Inr ''Primary template updated successfully'', st\<lparr>templates := db2\<rparr>))"

text \<open>
  Sequences of operations on the templates: the enrollments of the two services, the two
  replacement steps, and the endpoint that sets the primary template; each for some user.
\<close>

datatype operation =
  EnrollFace int string
| EnrollFingerprint int string
| DeactivateTemplates int
| DeleteFingerprintTemplates int
| SetPrimary int int

fun step :: "'b env \<Rightarrow> operation \<Rightarrow> 'b db \<Rightarrow> 'b db" where
  "step e (EnrollFace uid video) st =
     st\<lparr>templates := snd (enroll_biometric e uid video (templates st))\<rparr>"
| "step e (EnrollFingerprint uid fp) st =
     st\<lparr>templates := snd (enroll_fingerprint e uid fp (templates st))\<rparr>"
| "step e (DeactivateTemplates uid) st =
     st\<lparr>templates := deactivate_user_templates uid (templates st)\<rparr>"
| "step e (DeleteFingerprintTemplates uid) st =
     st\<lparr>templates := snd (delete_user_fingerprint_templates uid (templates st))\<rparr>"
| "step e (SetPrimary current_user tid) st = snd (set_primary_template tid current_user st)"

fun run :: "'b env \<Rightarrow> operation list \<Rightarrow> 'b db \<Rightarrow> 'b db" where
  "run e [] st = st"
| "run e (x # xs) st = run e xs (step e x st)"




text \<open>
  Invariant A: among the active templates of each user and modality, at most one is
  primary.
\<close>

definition active_primary :: "int \<Rightarrow> BiometricType \<Rightarrow> 'b BiometricTemplate \<Rightarrow> bool" where
  "active_primary u m t \<longleftrightarrow> user_id t = u \<and> biometric_type t = m \<and> is_active t \<and> is_primary t"

definition primary_unique :: "'b BiometricTemplate list \<Rightarrow> bool" where
  "primary_unique db \<longleftrightarrow>
     (\<forall>t \<in> set db. length (filter (active_primary (user_id t) (biometric_type t)) db) \<le> 1)"

text \<open>Invariant C: the flag of a user says whether the user has an active template.\<close>

definition has_active :: "int \<Rightarrow> 'b BiometricTemplate list \<Rightarrow> bool" where
  "has_active u db \<longleftrightarrow> (\<exists>t \<in> set db. user_id t = u \<and> is_active t)"

definition enrolled_consistent :: "int \<Rightarrow> 'b db \<Rightarrow> bool" where
  "enrolled_consistent u st \<longleftrightarrow> (is_enrolled st u \<longleftrightarrow> has_active u (templates st))"


section \<open>The scores of a verification\<close>

text \<open>
  The similarity scores a verification computes, in the order of its loops: one score for
  each template whose payload decrypts and, for faces, each frame with a face and an
  encoding.
\<close>

definition fingerprint_scores ::
  "'b env \<Rightarrow> real list \<Rightarrow> 'b BiometricTemplate list \<Rightarrow> nat list \<Rightarrow> real list" where
  "fingerprint_scores e input_features db idxs =
     List.map_filter
       (\<lambda>i. map_option (calculate_fingerprint_similarity input_features)
               (decrypt_data e (template_data (db ! i)))) idxs"

definition encoding_scores ::
  "'b env \<Rightarrow> real list \<Rightarrow> 'b BiometricTemplate list \<Rightarrow> nat list \<Rightarrow> real list" where
  "encoding_scores e enc db idxs =
     List.map_filter
       (\<lambda>i. map_option (\<lambda>stored. calculate_similarity stored enc)
               (decrypt_data e (template_data (db ! i)))) idxs"

definition face_scores ::
  "'b env \<Rightarrow> frame list \<Rightarrow> 'b BiometricTemplate list \<Rightarrow> nat list \<Rightarrow> real list" where
  "face_scores e frames db idxs =
     concat (map (\<lambda>f. if faces_detected f > 0
                       then (case encoding f of
                               None \<Rightarrow> []
                             | Some enc \<Rightarrow> encoding_scores e enc db idxs)
                       else []) frames)"


section \<open>A concrete environment\<close>

text \<open>
  An instance of the library functions on which the definitions can be run: payloads are
  stored in the clear, the digest is the identity, the text \<open>''!''\<close> is not valid
  base64 and every other text decodes to its character codes. A video has one frame per
  byte: \<open>-\<close> (45) is a frame without a face, \<open>?\<close> (63) a face whose encoding cannot be
  extracted, \<open>z\<close> (122) a face with the all-zero encoding, \<open>a\<close> (97) a face with the
  encoding \<open>[3, 4]\<close>, \<open>b\<close> (98) one with \<open>[5, 12]\<close>, \<open>c\<close> (99) one with
  \<open>[1, 0, 0]\<close>, and any other byte one with \<open>[1, 0]\<close>.
\<close>

definition demo_frame :: "8 word \<Rightarrow> frame" where
  "demo_frame b =
     (if b = 45 then \<lparr>faces_detected = 0, encoding = None, quality = 0\<rparr>
      else if b = 63 then \<lparr>faces_detected = 1, encoding = None, quality = 0\<rparr>
      else if b = 122 then \<lparr>faces_detected = 1, encoding = Some [0, 0], quality = 1 / 4\<rparr>
      else if b = 97 then \<lparr>faces_detected = 1, encoding = Some [3, 4], quality = 1 / 2\<rparr>
      else if b = 98 then \<lparr>faces_detected = 1, encoding = Some [5, 12], quality = 1 / 2\<rparr>
      else if b = 99 then \<lparr>faces_detected = 1, encoding = Some [1, 0, 0], quality = 1 / 2\<rparr>
      else \<lparr>faces_detected = 1, encoding = Some [1, 0], quality = 1 / 2\<rparr>)"

definition demo_env :: "(real list) env" where
  "demo_env =
     \<lparr>b64decode = (\<lambda>s. if s = ''!'' then None else Some (map (\<lambda>c. of_nat (of_char c)) s)),
      sha256 = (\<lambda>bs. bs),
      video_frames = map demo_frame,
      encrypt_data = (\<lambda>v. v),
      decrypt_data = Some\<rparr>"

definition demo_template ::
  "int \<Rightarrow> int \<Rightarrow> BiometricType \<Rightarrow> real list \<Rightarrow> bool \<Rightarrow> bool \<Rightarrow> (real list) BiometricTemplate" where
  "demo_template i u m v a p =
     \<lparr>id_tpl = i, user_id = u, biometric_type = m, template_data = v,
      quality_score = 1 / 2, confidence_score = 0.9, is_active = a, is_primary = p,
      verification_count = 0, last_used = None\<rparr>"

text \<open>User 1 is enrolled with one active face template, whose encoding is \<open>[1, 0]\<close>.\<close>

definition demo_db :: "(real list) db" where
  "demo_db =
     \<lparr>templates = [demo_template 1 1 FACE [1, 0] True True],
      is_enrolled = (\<lambda>u. u = 1)\<rparr>"

text \<open>User 1 has no face template and one active fingerprint template.\<close>

definition demo_fingerprint_db :: "(real list) BiometricTemplate list" where
  "demo_fingerprint_db = [demo_template 1 1 FINGERPRINT [3, 4] True True]"


section \<open>The similarity scorers are bounded\<close>


lemma np_dot_self_nonneg: "0 \<le> np_dot a a"
  by (induction a) auto

lemma np_dot_self_zero_iff: "np_dot v v = 0 \<longleftrightarrow> (\<forall>x\<in>set v. x = 0)"
proof (induction v)
  case Nil
  show ?case by simp
next
  case (Cons a v)
  have "a * a + np_dot v v = 0 \<longleftrightarrow> a * a = 0 \<and> np_dot v v = 0"
    by (rule add_nonneg_eq_0_iff) (simp_all add: np_dot_self_nonneg)
  with Cons show ?case by simp
qed

lemma norm_dot: "np_linalg_norm v = sqrt (np_dot v v)"
  by (induction v) (auto simp: np_linalg_norm_def power2_eq_square)

lemma norm_nonneg: "0 \<le> np_linalg_norm v"
  by (simp add: norm_dot np_dot_self_nonneg)

lemma norm_zero_iff: "np_linalg_norm v = 0 \<longleftrightarrow> (\<forall>x\<in>set v. x = 0)"
  by (simp add: norm_dot np_dot_self_zero_iff)

lemma cs_step:
  fixes x y d A B :: real
  assumes d: "d\<^sup>2 \<le> A * B" and A: "0 \<le> A" and B: "0 \<le> B"
  shows "(x * y + d)\<^sup>2 \<le> (x * x + A) * (y * y + B)"
proof -
  let ?u = "x * x * B" and ?v = "y * y * A"
  have uv: "0 \<le> ?u + ?v" using A B by simp
  have "(2 * x * y * d)\<^sup>2 = 4 * (x * x * (y * y)) * d\<^sup>2"
    by (simp add: power2_eq_square)
  also have "\<dots> \<le> 4 * (x * x * (y * y)) * (A * B)"
    using d by (intro mult_left_mono) auto
  also have "\<dots> = 4 * ?u * ?v" by simp
  also have "\<dots> \<le> (?u + ?v)\<^sup>2"
  proof -
    have "0 \<le> (?u - ?v)\<^sup>2" by simp
    then show ?thesis by (simp add: power2_eq_square algebra_simps)
  qed
  finally have "2 * x * y * d \<le> ?u + ?v"
    using uv by (meson abs_le_square_iff abs_of_nonneg abs_le_D1 power2_le_imp_le)
  then show ?thesis using d
    by (simp add: power2_eq_square algebra_simps)
qed

lemma cauchy_schwarz: "(np_dot a b)\<^sup>2 \<le> np_dot a a * np_dot b b"
proof (induction a b rule: np_dot.induct)
  case (1 x xs y ys)
  then show ?case
    using cs_step[OF 1 np_dot_self_nonneg np_dot_self_nonneg, of x y] by simp
qed (auto simp: np_dot_self_nonneg)

lemma dot_le_norms: "np_dot a b \<le> np_linalg_norm a * np_linalg_norm b"
proof -
  have "np_dot a b \<le> \<bar>np_dot a b\<bar>" by simp
  also have "\<dots> = sqrt ((np_dot a b)\<^sup>2)" by simp
  also have "\<dots> \<le> sqrt (np_dot a a * np_dot b b)"
    using cauchy_schwarz by (simp only: real_sqrt_le_iff)
  also have "\<dots> = np_linalg_norm a * np_linalg_norm b"
    by (simp add: norm_dot real_sqrt_mult)
  finally show ?thesis .
qed

lemma cosine_le_1:
  assumes "np_linalg_norm a \<noteq> 0" "np_linalg_norm b \<noteq> 0"
  shows "np_dot a b / (np_linalg_norm a * np_linalg_norm b) \<le> 1"
proof -
  have "0 < np_linalg_norm a * np_linalg_norm b"
    using assms norm_nonneg[of a] norm_nonneg[of b] by (simp add: less_le)
  then show ?thesis using dot_le_norms[of a b] by (simp add: divide_le_eq)
qed

lemma cosine_self:
  assumes "np_linalg_norm a \<noteq> 0"
  shows "np_dot a a / (np_linalg_norm a * np_linalg_norm a) = 1"
proof -
  have "np_linalg_norm a * np_linalg_norm a = np_dot a a"
    by (simp add: norm_dot np_dot_self_nonneg)
  moreover have "np_dot a a \<noteq> 0"
    using assms by (simp add: norm_dot)
  ultimately show ?thesis by simp
qed

lemma calculate_similarity_range:
  "0 \<le> calculate_similarity a b \<and> calculate_similarity a b \<le> 1"
  using cosine_le_1[of a b] by (simp add: calculate_similarity_def Let_def)

lemma calculate_fingerprint_similarity_range:
  "0 \<le> calculate_fingerprint_similarity a b \<and> calculate_fingerprint_similarity a b \<le> 1"
  by (simp add: calculate_fingerprint_similarity_def Let_def)

lemma calculate_similarity_self:
  "\<exists>x\<in>set a. x \<noteq> 0 \<Longrightarrow> calculate_similarity a a = 1"
  using cosine_self[of a] by (auto simp add: calculate_similarity_def Let_def norm_zero_iff)

lemma calculate_fingerprint_similarity_self:
  "\<exists>x\<in>set a. x \<noteq> 0 \<Longrightarrow> calculate_fingerprint_similarity a a = 1"
  using cosine_self[of a]
  by (auto simp add: calculate_fingerprint_similarity_def Let_def norm_zero_iff)

lemma similarity_zero_vector:
  "(\<forall>x\<in>set a. x = 0) \<or> (\<forall>x\<in>set b. x = 0) \<Longrightarrow>
     calculate_similarity a b = 0 \<and> calculate_fingerprint_similarity a b = 0"
  by (auto simp add: calculate_similarity_def calculate_fingerprint_similarity_def Let_def
        norm_zero_iff)

text \<open>
  Claim C4. For feature vectors \<open>a\<close> and \<open>b\<close> of equal length, both scorers (the face
  scorer, which clamps only from below, and the fingerprint scorer) return a score between
  0 and 1; the score of a vector that is not all-zero with itself is 1; and the score is 0
  when either vector is all-zero.
\<close>

theorem similarity_scorers_bounded:
  assumes "length a = length b"
  shows "0 \<le> calculate_similarity a b \<and> calculate_similarity a b \<le> 1
       \<and> 0 \<le> calculate_fingerprint_similarity a b \<and> calculate_fingerprint_similarity a b \<le> 1
       \<and> ((\<exists>x\<in>set a. x \<noteq> 0) \<longrightarrow>
             calculate_similarity a a = 1 \<and> calculate_fingerprint_similarity a a = 1)
       \<and> ((\<forall>x\<in>set a. x = 0) \<or> (\<forall>x\<in>set b. x = 0) \<longrightarrow>
             calculate_similarity a b = 0 \<and> calculate_fingerprint_similarity a b = 0)"
  using calculate_similarity_range[of a b] calculate_fingerprint_similarity_range[of a b]
    calculate_similarity_self[of a] calculate_fingerprint_similarity_self[of a]
    similarity_zero_vector[of a b]
  by blast

theorem similarity_scorers_bounded_witness:
  "length [3, 4 :: real] = length [0, 0 :: real]
   \<and> (\<exists>x\<in>set [3, 4 :: real]. x \<noteq> 0) \<and> set [0, 0 :: real] = {0}
   \<and> calculate_similarity [3, 4] [3, 4] = 1
   \<and> calculate_fingerprint_similarity [3, 4] [3, 4] = 1
   \<and> calculate_similarity [3, 4] [0, 0] = 0
   \<and> calculate_fingerprint_similarity [3, 4] [0, 0] = 0"
  using similarity_scorers_bounded[of "[3, 4]" "[0, 0]"] by simp


section \<open>The templates a verification compares\<close>

lemma query_sound: "i \<in> set (query P db) \<Longrightarrow> i < length db \<and> P (db ! i)"
  by (simp add: query_def)

text \<open>
  The fingerprint verification compares active fingerprint templates of the user only; the
  face verification compares every active template of the user, whatever its modality.
\<close>

lemma get_user_fingerprint_templates_sound:
  "i \<in> set (get_user_fingerprint_templates uid db) \<Longrightarrow>
     i < length db \<and> user_id (db ! i) = uid \<and> biometric_type (db ! i) = FINGERPRINT
     \<and> is_active (db ! i)"
  by (auto simp: get_user_fingerprint_templates_def dest: query_sound)

lemma get_active_templates_sound:
  "i \<in> set (get_active_templates uid db) \<Longrightarrow>
     i < length db \<and> user_id (db ! i) = uid \<and> is_active (db ! i)"
  by (auto simp: get_active_templates_def dest: query_sound)

text \<open>
  Claim C2. A verification for a modality compares only templates that are active and of
  that modality. The face verification does not do so: its query has no condition on the
  modality. For a user whose only active template is a fingerprint template, the query of
  a face verification returns that template, and the verification runs its comparison loop
  over it and reports a similarity score (0, the encoding and the stored vector having
  different lengths) instead of finding no template.
\<close>

theorem face_lookup_returns_fingerprint_template:
  "get_active_templates 1 demo_fingerprint_db = [0]
   \<and> biometric_type (demo_fingerprint_db ! 0) = FINGERPRINT
   \<and> message (fst (verify_biometric demo_env 7 1 ''c'' None demo_fingerprint_db))
       = ''Verification failed''
   \<and> similarity_score (fst (verify_biometric demo_env 7 1 ''c'' None demo_fingerprint_db))
       = Some 0"
  by (simp add: verify_biometric_def get_active_templates_def query_def demo_fingerprint_db_def
        demo_template_def demo_env_def demo_frame_def decode_video_data_def
        extract_frames_def calculate_similarity_def np_linalg_norm_def record_use_def
        result_def BIOMETRIC_THRESHOLD_def)

text \<open>
  Claim C6. A verification for a user without an active template of the requested modality
  returns a failure whose message says that no templates were found, whatever the payload.
  The face verification does not do so when the user has an active fingerprint template
  (the same missing condition as for C2): with the threshold 0 it succeeds, and with a
  payload that is not valid base64 it reports the decoding error.
\<close>

theorem face_verify_without_face_templates_succeeds:
  "get_active_templates 1 (filter (\<lambda>t. biometric_type t = FACE) demo_fingerprint_db) = []
   \<and> success (fst (verify_biometric demo_env 7 1 ''c'' (Some 0) demo_fingerprint_db)) = True
   \<and> message (fst (verify_biometric demo_env 7 1 ''c'' (Some 0) demo_fingerprint_db))
       = ''Verification successful''
   \<and> message (fst (verify_biometric demo_env 7 1 ''!'' None demo_fingerprint_db))
       = ''Verification failed: Invalid video data format''"
  by (simp add: verify_biometric_def get_active_templates_def query_def demo_fingerprint_db_def
        demo_template_def demo_env_def demo_frame_def decode_video_data_def
        extract_frames_def calculate_similarity_def np_linalg_norm_def record_use_def
        result_def BIOMETRIC_THRESHOLD_def)


section \<open>Usage recording and the winning template\<close>

text \<open>
  The fingerprint verification records a use after the decision: a failure leaves the table
  as it is, and a success changes at most the row of the template the result names.
\<close>

lemma verify_fingerprint_failure_frame:
  "\<not> success (fst (verify_fingerprint e now uid fp threshold_opt db)) \<Longrightarrow>
     snd (verify_fingerprint e now uid fp threshold_opt db) = db"
  by (simp add: verify_fingerprint_def Let_def result_def split: option.splits prod.splits if_splits)

lemma verify_fingerprint_success_frame:
  "success (fst (verify_fingerprint e now uid fp threshold_opt db)) \<Longrightarrow>
     (case template_id (fst (verify_fingerprint e now uid fp threshold_opt db)) of
        None \<Rightarrow> snd (verify_fingerprint e now uid fp threshold_opt db) = db
      | Some tid \<Rightarrow>
          (\<exists>i. id_tpl (db ! i) = tid \<and>
             snd (verify_fingerprint e now uid fp threshold_opt db)
               = db[i := record_use now (db ! i)]))"
  by (auto simp add: verify_fingerprint_def Let_def result_def
        split: option.splits prod.splits if_splits)

text \<open>
  Claim C1. A verification that fails changes no usage counter, and one that succeeds
  records one use of the winning template only. The face verification does not do so: it
  records a use each time a comparison improves the running best score, before the
  decision is taken. Against the stored encoding \<open>[1, 0]\<close> the encoding \<open>[5, 12]\<close>
  scores 5/13, below the default threshold 0.6: the verification fails, and the use is
  recorded all the same.
\<close>

theorem face_usage_recorded_on_failure:
  "success (fst (verify_biometric demo_env 7 1 ''b'' None (templates demo_db))) = False
   \<and> similarity_score (fst (verify_biometric demo_env 7 1 ''b'' None (templates demo_db)))
       = Some (5 / 13)
   \<and> map verification_count (templates demo_db) = [0]
   \<and> map verification_count (snd (verify_biometric demo_env 7 1 ''b'' None (templates demo_db)))
       = [1]
   \<and> map last_used (snd (verify_biometric demo_env 7 1 ''b'' None (templates demo_db)))
       = [Some 7]"
  by (simp add: verify_biometric_def get_active_templates_def query_def demo_db_def
        demo_template_def demo_env_def demo_frame_def decode_video_data_def
        extract_frames_def calculate_similarity_def np_linalg_norm_def record_use_def
        result_def BIOMETRIC_THRESHOLD_def)

text \<open>
  Claim C9. The result of a successful verification names the winning template in
  \<open>template_id\<close>. The face verification does not do so: it never sets the field. Against
  the stored encoding \<open>[1, 0]\<close> the same encoding scores 1 and the verification
  succeeds, with no template id in the result.
\<close>

theorem face_verify_returns_no_template_id:
  "success (fst (verify_biometric demo_env 7 1 ''d'' None (templates demo_db))) = True
   \<and> similarity_score (fst (verify_biometric demo_env 7 1 ''d'' None (templates demo_db)))
       = Some 1
   \<and> template_id (fst (verify_biometric demo_env 7 1 ''d'' None (templates demo_db))) = None"
  by (simp add: verify_biometric_def get_active_templates_def query_def demo_db_def
        demo_template_def demo_env_def demo_frame_def decode_video_data_def
        extract_frames_def calculate_similarity_def np_linalg_norm_def record_use_def
        result_def BIOMETRIC_THRESHOLD_def)


section \<open>The threshold decision\<close>

lemma fold_max_Max: "fold max xs (b::real) = Max (set (b # xs))"
  by (rule Max.set_eq_fold[symmetric])

lemma best_match_fold:
  "fst (best_match e v db idxs (b, t)) = fold max (fingerprint_scores e v db idxs) b"
proof (induction idxs arbitrary: b t)
  case Nil
  show ?case by (simp add: fingerprint_scores_def map_filter_simps)
next
  case (Cons i idxs)
  show ?case
  proof (cases "decrypt_data e (template_data (db ! i))")
    case None
    with Cons[of b t] show ?thesis
      by (simp add: fingerprint_scores_def map_filter_simps)
  next
    case (Some stored)
    let ?s = "calculate_fingerprint_similarity v stored"
    show ?thesis
    proof (cases "?s > b")
      case True
      then have "max ?s b = ?s" by simp
      with True Some Cons[of ?s "Some i"] show ?thesis
        by (simp add: fingerprint_scores_def map_filter_simps)
    next
      case False
      then have "max ?s b = b" by simp
      with False Some Cons[of b t] show ?thesis
        by (simp add: fingerprint_scores_def map_filter_simps)
    qed
  qed
qed

lemma compare_templates_data:
  "template_data (snd (compare_templates e now enc idxs (b, db)) ! j) = template_data (db ! j)"
proof (induction idxs arbitrary: b db)
  case Nil
  show ?case by simp
next
  case (Cons i idxs)
  have upd: "template_data (db[i := record_use now (db ! i)] ! j) = template_data (db ! j)"
  proof (cases "i = j \<and> i < length db")
    case True
    then show ?thesis by (simp add: record_use_def)
  next
    case False
    then show ?thesis by (cases "i = j") (simp_all add: list_update_beyond)
  qed
  show ?case
    using Cons[of b db] Cons[of _ "db[i := record_use now (db ! i)]"] upd
    by (simp add: Let_def split: option.split)
qed

lemma encoding_scores_cong:
  assumes "\<And>j. template_data (db' ! j) = template_data (db ! j)"
  shows "encoding_scores e enc db' idxs = encoding_scores e enc db idxs"
  by (simp add: encoding_scores_def assms)

lemma face_scores_cong:
  assumes "\<And>j. template_data (db' ! j) = template_data (db ! j)"
  shows "face_scores e frames db' idxs = face_scores e frames db idxs"
proof -
  have "encoding_scores e enc db' idxs = encoding_scores e enc db idxs" for enc
    by (rule encoding_scores_cong) (rule assms)
  then show ?thesis by (simp add: face_scores_def cong: option.case_cong if_cong)
qed

lemma compare_templates_fold:
  "fst (compare_templates e now enc idxs (b, db)) = fold max (encoding_scores e enc db idxs) b"
proof (induction idxs arbitrary: b db)
  case Nil
  show ?case by (simp add: encoding_scores_def map_filter_simps)
next
  case (Cons i idxs)
  show ?case
  proof (cases "decrypt_data e (template_data (db ! i))")
    case None
    with Cons[of b db] show ?thesis
      by (simp add: encoding_scores_def map_filter_simps)
  next
    case (Some stored)
    let ?s = "calculate_similarity stored enc"
    let ?db' = "db[i := record_use now (db ! i)]"
    show ?thesis
    proof (cases "?s > b")
      case True
      then have m: "max ?s b = ?s" by simp
      have "template_data (?db' ! j) = template_data (db ! j)" for j
        using compare_templates_data[of e now enc "[i]" b db j] Some True by simp
      then have "encoding_scores e enc ?db' idxs = encoding_scores e enc db idxs"
        by (rule encoding_scores_cong)
      with True Some m Cons[of ?s ?db'] show ?thesis
        by (simp add: encoding_scores_def map_filter_simps)
    next
      case False
      then have "max ?s b = b" by simp
      with False Some Cons[of b db] show ?thesis
        by (simp add: encoding_scores_def map_filter_simps)
    qed
  qed
qed

lemma process_frames_fold:
  "fst (process_frames e now idxs frames (b, fd, db)) = fold max (face_scores e frames db idxs) b"
proof (induction frames arbitrary: b fd db)
  case Nil
  show ?case by (simp add: face_scores_def)
next
  case (Cons f frames)
  show ?case
  proof (cases "faces_detected f > 0")
    case False
    with Cons[of b fd db] show ?thesis by (simp add: face_scores_def)
  next
    case True
    show ?thesis
    proof (cases "encoding f")
      case None
      with True Cons[of b True db] show ?thesis by (simp add: face_scores_def)
    next
      case (Some enc)
      obtain b' db' where c: "compare_templates e now enc idxs (b, db) = (b', db')"
        by (cases "compare_templates e now enc idxs (b, db)")
      have b': "b' = fold max (encoding_scores e enc db idxs) b"
        using compare_templates_fold[of e now enc idxs b db] c by simp
      have "template_data (db' ! j) = template_data (db ! j)" for j
        using compare_templates_data[of e now enc idxs b db j] c by simp
      then have "face_scores e frames db' idxs = face_scores e frames db idxs"
        by (rule face_scores_cong)
      with True Some c b' Cons[of b' True db'] show ?thesis
        by (simp add: face_scores_def)
    qed
  qed
qed

lemma verify_fingerprint_threshold:
  "threshold_used (fst (verify_fingerprint e now uid fp threshold_opt db))
     = Some (case threshold_opt of None \<Rightarrow> default_threshold | Some t \<Rightarrow> t)"
  by (simp add: verify_fingerprint_def Let_def result_def split: option.split prod.split)

lemma verify_biometric_threshold:
  "threshold_used (fst (verify_biometric e now uid video threshold_opt db))
     = Some (case threshold_opt of None \<Rightarrow> BIOMETRIC_THRESHOLD | Some t \<Rightarrow> t)"
  by (simp add: verify_biometric_def Let_def result_def split: option.split prod.split)

lemma verify_fingerprint_decision:
  "case similarity_score (fst (verify_fingerprint e now uid fp threshold_opt db)) of
     None \<Rightarrow> \<not> success (fst (verify_fingerprint e now uid fp threshold_opt db))
   | Some s \<Rightarrow> success (fst (verify_fingerprint e now uid fp threshold_opt db))
               = (s \<ge> (case threshold_opt of None \<Rightarrow> default_threshold | Some t \<Rightarrow> t))"
  by (simp add: verify_fingerprint_def Let_def result_def split: option.split prod.split)

lemma verify_biometric_decision:
  "case similarity_score (fst (verify_biometric e now uid video threshold_opt db)) of
     None \<Rightarrow> \<not> success (fst (verify_biometric e now uid video threshold_opt db))
   | Some s \<Rightarrow> success (fst (verify_biometric e now uid video threshold_opt db))
               = (s \<ge> (case threshold_opt of None \<Rightarrow> BIOMETRIC_THRESHOLD | Some t \<Rightarrow> t))"
  by (simp add: verify_biometric_def Let_def result_def split: option.split prod.split)

lemma verify_fingerprint_score:
  assumes "get_user_fingerprint_templates uid db \<noteq> []"
    and "decode_fingerprint_data e fp = Some fingerprint_bytes"
    and "extract_fingerprint_features e fingerprint_bytes = Some v"
  shows "similarity_score (fst (verify_fingerprint e now uid fp threshold_opt db))
           = Some (Max (set (0 # fingerprint_scores e v db (get_user_fingerprint_templates uid db))))"
proof -
  obtain b t where bm:
    "best_match e v db (get_user_fingerprint_templates uid db) (0, None) = (b, t)"
    by (cases "best_match e v db (get_user_fingerprint_templates uid db) (0, None)")
  have "b = Max (set (0 # fingerprint_scores e v db (get_user_fingerprint_templates uid db)))"
    using best_match_fold[of e v db "get_user_fingerprint_templates uid db" 0 None] bm
    by (simp only: fold_max_Max fst_conv)
  with assms bm show ?thesis
    by (simp add: verify_fingerprint_def Let_def result_def)
qed

lemma verify_biometric_score:
  assumes "get_active_templates uid db \<noteq> []"
    and "decode_video_data e video = Some video_bytes"
    and "extract_frames e video_bytes \<noteq> []"
  shows "similarity_score (fst (verify_biometric e now uid video threshold_opt db))
           = Some (Max (set (0 # face_scores e (extract_frames e video_bytes) db
                                   (get_active_templates uid db))))"
proof -
  obtain b fd db' where pf:
    "process_frames e now (get_active_templates uid db) (extract_frames e video_bytes)
       (0, False, db) = (b, fd, db')"
    by (cases "process_frames e now (get_active_templates uid db)
                 (extract_frames e video_bytes) (0, False, db)")
  have "b = Max (set (0 # face_scores e (extract_frames e video_bytes) db
                            (get_active_templates uid db)))"
    using process_frames_fold[of e now "get_active_templates uid db"
        "extract_frames e video_bytes" 0 False db] pf
    by (simp only: fold_max_Max fst_conv)
  with assms pf show ?thesis
    by (simp add: verify_biometric_def Let_def result_def)
qed

text \<open>
  Claim C8. The threshold of a verification is the caller's override when there is one and
  otherwise the default of the modality, 0.6 for faces and 0.75 for fingerprints; every
  result reports it in \<open>threshold_used\<close>. A result that carries a similarity score is a
  success exactly when that score is at least the threshold, and a result without one (no
  templates, a payload that cannot be decoded, no frames) is a failure. When the
  comparison is reached, the score is the maximum of 0 and the scores of all comparisons.
\<close>

theorem effective_threshold_decides:
  "BIOMETRIC_THRESHOLD = 0.6 \<and> default_threshold = 0.75
   \<and> threshold_used (fst (verify_biometric e now uid video threshold_opt db))
     = Some (case threshold_opt of None \<Rightarrow> BIOMETRIC_THRESHOLD | Some t \<Rightarrow> t)
   \<and> threshold_used (fst (verify_fingerprint e now uid fp threshold_opt db))
     = Some (case threshold_opt of None \<Rightarrow> default_threshold | Some t \<Rightarrow> t)
   \<and> (case similarity_score (fst (verify_biometric e now uid video threshold_opt db)) of
         None \<Rightarrow> \<not> success (fst (verify_biometric e now uid video threshold_opt db))
       | Some s \<Rightarrow> success (fst (verify_biometric e now uid video threshold_opt db))
                   = (s \<ge> (case threshold_opt of None \<Rightarrow> BIOMETRIC_THRESHOLD | Some t \<Rightarrow> t)))
   \<and> (case similarity_score (fst (verify_fingerprint e now uid fp threshold_opt db)) of
         None \<Rightarrow> \<not> success (fst (verify_fingerprint e now uid fp threshold_opt db))
       | Some s \<Rightarrow> success (fst (verify_fingerprint e now uid fp threshold_opt db))
                   = (s \<ge> (case threshold_opt of None \<Rightarrow> default_threshold | Some t \<Rightarrow> t)))
   \<and> (get_active_templates uid db \<noteq> [] \<and> decode_video_data e video = Some video_bytes
        \<and> extract_frames e video_bytes \<noteq> [] \<longrightarrow>
      similarity_score (fst (verify_biometric e now uid video threshold_opt db))
        = Some (Max (set (0 # face_scores e (extract_frames e video_bytes) db
                                (get_active_templates uid db)))))
   \<and> (get_user_fingerprint_templates uid db \<noteq> []
        \<and> decode_fingerprint_data e fp = Some fingerprint_bytes
        \<and> extract_fingerprint_features e fingerprint_bytes = Some v \<longrightarrow>
      similarity_score (fst (verify_fingerprint e now uid fp threshold_opt db))
        = Some (Max (set (0 # fingerprint_scores e v db
                                (get_user_fingerprint_templates uid db)))))"
  using verify_biometric_threshold[of e now uid video threshold_opt db]
    verify_fingerprint_threshold[of e now uid fp threshold_opt db]
    verify_biometric_decision[of e now uid video threshold_opt db]
    verify_fingerprint_decision[of e now uid fp threshold_opt db]
    verify_biometric_score[of uid db e video video_bytes now threshold_opt]
    verify_fingerprint_score[of uid db e fp fingerprint_bytes v now threshold_opt]
  by (intro conjI impI) (simp_all add: BIOMETRIC_THRESHOLD_def default_threshold_def)

theorem effective_threshold_decides_witness:
  "get_active_templates 1 (templates demo_db @ demo_fingerprint_db) \<noteq> []
   \<and> decode_video_data demo_env ''ab'' = Some [97, 98]
   \<and> extract_frames demo_env [97, 98] \<noteq> []
   \<and> get_user_fingerprint_templates 1 (templates demo_db @ demo_fingerprint_db) \<noteq> []
   \<and> decode_fingerprint_data demo_env ''ab'' = Some [97, 98]
   \<and> extract_fingerprint_features demo_env [97, 98] = Some [97 / 255, 98 / 255]
   \<and> threshold_used (fst (verify_biometric demo_env 7 1 ''ab'' (Some (99 / 100))
         (templates demo_db @ demo_fingerprint_db))) = Some (99 / 100)
   \<and> threshold_used (fst (verify_fingerprint demo_env 7 1 ''ab'' (Some (99 / 100))
         (templates demo_db @ demo_fingerprint_db))) = Some (99 / 100)
   \<and> similarity_score (fst (verify_biometric demo_env 7 1 ''ab'' (Some (99 / 100))
         (templates demo_db @ demo_fingerprint_db)))
       = Some (Max (set (0 # face_scores demo_env (extract_frames demo_env [97, 98])
                               (templates demo_db @ demo_fingerprint_db)
                               (get_active_templates 1
                                  (templates demo_db @ demo_fingerprint_db)))))
   \<and> similarity_score (fst (verify_fingerprint demo_env 7 1 ''ab'' (Some (99 / 100))
         (templates demo_db @ demo_fingerprint_db)))
       = Some (Max (set (0 # fingerprint_scores demo_env [97 / 255, 98 / 255]
                               (templates demo_db @ demo_fingerprint_db)
                               (get_user_fingerprint_templates 1
                                  (templates demo_db @ demo_fingerprint_db)))))"
proof -
  have face: "get_active_templates 1 (templates demo_db @ demo_fingerprint_db) \<noteq> []
      \<and> decode_video_data demo_env ''ab'' = Some [97, 98]
      \<and> extract_frames demo_env [97, 98] \<noteq> []"
    by (simp add: get_active_templates_def query_def demo_db_def demo_fingerprint_db_def
          decode_video_data_def extract_frames_def demo_env_def demo_template_def)
  have fingerprint:
    "get_user_fingerprint_templates 1 (templates demo_db @ demo_fingerprint_db) \<noteq> []
      \<and> decode_fingerprint_data demo_env ''ab'' = Some [97, 98]
      \<and> extract_fingerprint_features demo_env [97, 98] = Some [97 / 255, 98 / 255]"
    by (simp add: get_user_fingerprint_templates_def query_def demo_db_def
          demo_fingerprint_db_def decode_fingerprint_data_def
          extract_fingerprint_features_def demo_env_def demo_template_def)
  show ?thesis
    using face fingerprint
      effective_threshold_decides[where e = demo_env and now = 7 and uid = 1
        and video = "''ab''" and fp = "''ab''" and threshold_opt = "Some (99 / 100)"
        and db = "templates demo_db @ demo_fingerprint_db"
        and video_bytes = "[97, 98]" and fingerprint_bytes = "[97, 98]"
        and v = "[97 / 255, 98 / 255]"]
    by simp
qed


section \<open>Frames without a usable feature vector\<close>

lemma compare_templates_zero_encoding:
  assumes "\<forall>x\<in>set enc. x = 0"
  shows "compare_templates e now enc idxs (0, db) = (0, db)"
proof (induction idxs)
  case Nil
  show ?case by simp
next
  case (Cons i idxs)
  have "calculate_similarity stored enc = 0" for stored
    using similarity_zero_vector[of stored enc] assms by simp
  with Cons show ?case by (simp split: option.split)
qed

lemma process_frames_unusable:
  assumes "\<forall>f\<in>set frames. unusable f"
  shows "process_frames e now idxs frames (0, fd, db)
           = (0, fd \<or> (\<exists>f\<in>set frames. faces_detected f > 0), db)"
  using assms
proof (induction frames arbitrary: fd)
  case Nil
  show ?case by simp
next
  case (Cons f frames)
  from Cons.prems have f: "unusable f" and rest: "\<forall>f\<in>set frames. unusable f" by simp_all
  show ?case
  proof (cases "faces_detected f > 0")
    case False
    with Cons.IH[OF rest, of fd] show ?thesis by simp
  next
    case True
    show ?thesis
    proof (cases "encoding f")
      case None
      with True Cons.IH[OF rest, of True] show ?thesis by simp
    next
      case (Some enc)
      with f True have "\<forall>x\<in>set enc. x = 0" by (simp add: unusable_def)
      then have "compare_templates e now enc idxs (0, db) = (0, db)"
        by (rule compare_templates_zero_encoding)
      with True Some Cons.IH[OF rest, of True] show ?thesis by simp
    qed
  qed
qed

text \<open>
  Claim C10. When a face verification has templates to compare and frames to look at, but
  every frame is unusable (no face, no encoding, or an all-zero encoding), it goes on to
  the threshold decision with the best score 0: the result carries the score 0, is a
  success exactly when the threshold is at most 0, has the message of a successful or a
  failed verification, and no template is changed. In particular every override
  \<open>t \<le> 0\<close> gives a success.
\<close>

theorem no_usable_vector_goes_to_threshold:
  assumes "get_active_templates uid db \<noteq> []"
    and "decode_video_data e video = Some video_bytes"
    and "extract_frames e video_bytes \<noteq> []"
    and "\<forall>f\<in>set (extract_frames e video_bytes). unusable f"
  shows "success (fst (verify_biometric e now uid video threshold_opt db))
           = (0 \<ge> (case threshold_opt of None \<Rightarrow> BIOMETRIC_THRESHOLD | Some t \<Rightarrow> t))
       \<and> similarity_score (fst (verify_biometric e now uid video threshold_opt db)) = Some 0
       \<and> message (fst (verify_biometric e now uid video threshold_opt db))
           = (if 0 \<ge> (case threshold_opt of None \<Rightarrow> BIOMETRIC_THRESHOLD | Some t \<Rightarrow> t)
              then ''Verification successful'' else ''Verification failed'')
       \<and> snd (verify_biometric e now uid video threshold_opt db) = db
       \<and> (\<forall>t \<le> 0. success (fst (verify_biometric e now uid video (Some t) db)))"
  using assms process_frames_unusable[OF assms(4), of e now "get_active_templates uid db" False db]
  by (simp add: verify_biometric_def Let_def result_def)

theorem no_usable_vector_goes_to_threshold_witness:
  "get_active_templates 1 (templates demo_db) \<noteq> []
   \<and> decode_video_data demo_env ''-?z'' = Some [45, 63, 122]
   \<and> extract_frames demo_env [45, 63, 122] \<noteq> []
   \<and> list_all unusable (extract_frames demo_env [45, 63, 122])
   \<and> success (fst (verify_biometric demo_env 7 1 ''-?z'' (Some 0) (templates demo_db)))
   \<and> similarity_score (fst (verify_biometric demo_env 7 1 ''-?z'' (Some 0) (templates demo_db)))
       = Some 0
   \<and> message (fst (verify_biometric demo_env 7 1 ''-?z'' (Some 0) (templates demo_db)))
       = ''Verification successful''
   \<and> snd (verify_biometric demo_env 7 1 ''-?z'' (Some 0) (templates demo_db)) = templates demo_db"
  using no_usable_vector_goes_to_threshold[of 1 "templates demo_db" demo_env "''-?z''"
      "[45, 63, 122]" 7 "Some 0"]
  by (simp add: get_active_templates_def query_def demo_db_def demo_template_def
        decode_video_data_def extract_frames_def demo_env_def demo_frame_def unusable_def)


section \<open>Enrolling and then verifying a fingerprint\<close>

lemma query_snoc:
  assumes "\<forall>x\<in>set xs. \<not> P (f x)" and "P y"
  shows "query P (map f xs @ [y]) = [length xs]"
proof -
  have "filter (\<lambda>i. P ((map f xs @ [y]) ! i)) [0..<length xs] = []"
    using assms(1) by (auto simp: filter_empty_conv nth_append)
  then show ?thesis using assms(2) by (simp add: query_def nth_append)
qed

text \<open>
  Claim C5. Enrolling a fingerprint sample and then verifying the same sample with the
  default threshold succeeds, with a similarity score (1) that is at least the threshold
  used (0.75), and the result names the template just enrolled. The sample is valid
  base64, its feature vector \<open>v\<close> is not all-zero, and decrypting the encryption of
  \<open>v\<close> gives \<open>v\<close> back.
\<close>

theorem fingerprint_enroll_then_verify:
  assumes cipher: "decrypt_data e (encrypt_data e v) = Some v"
    and decode: "decode_fingerprint_data e fp = Some fingerprint_bytes"
    and features: "extract_fingerprint_features e fingerprint_bytes = Some v"
    and nonzero: "\<exists>x\<in>set v. x \<noteq> 0"
  shows "success (fst (enroll_fingerprint e uid fp db))
       \<and> success (fst (verify_fingerprint e now uid fp None (snd (enroll_fingerprint e uid fp db))))
       \<and> similarity_score
           (fst (verify_fingerprint e now uid fp None (snd (enroll_fingerprint e uid fp db))))
           = Some 1
       \<and> threshold_used
           (fst (verify_fingerprint e now uid fp None (snd (enroll_fingerprint e uid fp db))))
           = Some default_threshold
       \<and> default_threshold \<le> 1
       \<and> template_id
           (fst (verify_fingerprint e now uid fp None (snd (enroll_fingerprint e uid fp db))))
           = template_id (fst (enroll_fingerprint e uid fp db))"
proof -
  let ?deact = "\<lambda>t::'a BiometricTemplate.
                  if user_id t = uid \<and> biometric_type t = FINGERPRINT \<and> is_active t
                  then t\<lparr>is_active := False, is_primary := False\<rparr> else t"
  define new where "new =
     \<lparr>id_tpl = next_id db, user_id = uid, biometric_type = FINGERPRINT,
      template_data = encrypt_data e v,
      quality_score = calculate_quality_score fingerprint_bytes, confidence_score = 0.95,
      is_active = True, is_primary = True,
      verification_count = 0, last_used = None\<rparr>"
  define db1 where "db1 = map ?deact db @ [new]"
  have enroll: "enroll_fingerprint e uid fp db =
     ((result True ''Fingerprint enrollment successful'')
         \<lparr>face_detected := True,
          quality_score_res := Some (calculate_quality_score fingerprint_bytes),
          template_id := Some (next_id db)\<rparr>, db1)"
    using decode features by (simp add: enroll_fingerprint_def Let_def db1_def new_def)
  have q: "get_user_fingerprint_templates uid db1 = [length db]"
    unfolding get_user_fingerprint_templates_def db1_def
    by (rule query_snoc) (auto simp: new_def)
  have nth: "db1 ! length db = new" by (simp add: db1_def nth_append)
  have sim: "calculate_fingerprint_similarity v v = 1"
    using nonzero by (rule calculate_fingerprint_similarity_self)
  have best: "best_match e v db1 [length db] (0, None) = (1, Some (length db))"
    using cipher sim by (simp add: nth new_def)
  have verify: "fst (verify_fingerprint e now uid fp None db1) =
     (result True ''Fingerprint verification successful'')
        \<lparr>similarity_score := Some 1, threshold_used := Some default_threshold,
         face_detected := True, template_id := Some (next_id db)\<rparr>"
    using decode features best q
    by (simp add: verify_fingerprint_def Let_def default_threshold_def nth new_def)
  show ?thesis
    by (simp add: enroll verify result_def default_threshold_def)
qed

theorem fingerprint_enroll_then_verify_witness:
  "decrypt_data demo_env (encrypt_data demo_env [97 / 255, 98 / 255]) = Some [97 / 255, 98 / 255]
   \<and> decode_fingerprint_data demo_env ''ab'' = Some [97, 98]
   \<and> extract_fingerprint_features demo_env [97, 98] = Some [97 / 255, 98 / 255]
   \<and> (\<exists>x\<in>set [97 / 255, 98 / 255 :: real]. x \<noteq> 0)
   \<and> success (fst (verify_fingerprint demo_env 7 1 ''ab'' None
        (snd (enroll_fingerprint demo_env 1 ''ab'' demo_fingerprint_db))))
   \<and> similarity_score (fst (verify_fingerprint demo_env 7 1 ''ab'' None
        (snd (enroll_fingerprint demo_env 1 ''ab'' demo_fingerprint_db)))) = Some 1"
  using fingerprint_enroll_then_verify[of demo_env "[97 / 255, 98 / 255]" "''ab''" "[97, 98]"
      1 demo_fingerprint_db 7]
  by (simp add: demo_env_def decode_fingerprint_data_def extract_fingerprint_features_def)


section \<open>Primary uniqueness\<close>

lemma primary_unique_iff:
  "primary_unique db \<longleftrightarrow> (\<forall>u m. length (filter (active_primary u m) db) \<le> 1)"
proof
  assume pu: "primary_unique db"
  show "\<forall>u m. length (filter (active_primary u m) db) \<le> 1"
  proof (intro allI)
    fix u m
    show "length (filter (active_primary u m) db) \<le> 1"
    proof (cases "filter (active_primary u m) db")
      case Nil
      then show ?thesis by simp
    next
      case (Cons t ts)
      then have "t \<in> set (filter (active_primary u m) db)" by simp
      then have "t \<in> set db" and "user_id t = u" and "biometric_type t = m"
        by (auto simp: active_primary_def)
      with pu show ?thesis unfolding primary_unique_def by blast
    qed
  qed
next
  assume "\<forall>u m. length (filter (active_primary u m) db) \<le> 1"
  then show "primary_unique db" unfolding primary_unique_def by blast
qed

lemma length_filter_map_le:
  assumes "\<And>x. x \<in> set xs \<Longrightarrow> P (f x) \<Longrightarrow> Q x"
  shows "length (filter P (map f xs)) \<le> length (filter Q xs)"
  using assms by (induction xs) (auto simp: le_SucI)

lemma filter_map_empty:
  assumes "\<And>x. x \<in> set xs \<Longrightarrow> \<not> P (f x)"
  shows "filter P (map f xs) = []"
  using assms by (induction xs) auto

lemma length_filter_update_le:
  "length (filter P (xs[i := y])) \<le> Suc (length (filter P xs))"
proof (induction xs arbitrary: i)
  case Nil
  show ?case by simp
next
  case (Cons x xs)
  show ?case
  proof (cases i)
    case 0
    then show ?thesis by simp
  next
    case (Suc j)
    with Cons[of j] show ?thesis by simp
  qed
qed

lemma length_filter_update_le_neg:
  "\<not> P y \<Longrightarrow> length (filter P (xs[i := y])) \<le> length (filter P xs)"
proof (induction xs arbitrary: i)
  case Nil
  show ?case by simp
next
  case (Cons x xs)
  show ?case
  proof (cases i)
    case 0
    with Cons.prems show ?thesis by simp
  next
    case (Suc j)
    with Cons.IH[OF Cons.prems, of j] show ?thesis by simp
  qed
qed

lemma length_filter_filter_le: "length (filter P (filter R xs)) \<le> length (filter P xs)"
  by (induction xs) (auto simp: le_SucI)

lemma enroll_biometric_primary_unique:
  assumes "primary_unique db"
  shows "primary_unique (snd (enroll_biometric e uid video db))"
proof -
  let ?clear = "\<lambda>t::'a BiometricTemplate. if user_id t = uid \<and> is_primary t
                                      then t\<lparr>is_primary := False\<rparr> else t"
  have step: "primary_unique (map ?clear db @ [new])" if "user_id new = uid" for new
    unfolding primary_unique_iff
  proof (intro allI)
    fix u m
    show "length (filter (active_primary u m) (map ?clear db @ [new])) \<le> 1"
    proof (cases "u = uid")
      case True
      have "filter (active_primary u m) (map ?clear db) = []"
        by (rule filter_map_empty) (simp add: True active_primary_def)
      then show ?thesis by simp
    next
      case False
      have "length (filter (active_primary u m) (map ?clear db))
              \<le> length (filter (active_primary u m) db)"
        by (rule length_filter_map_le) (auto simp: active_primary_def split: if_splits)
      also have "\<dots> \<le> 1" using assms by (simp add: primary_unique_iff)
      finally show ?thesis using False that by (simp add: active_primary_def)
    qed
  qed
  show ?thesis
    using assms step
    by (simp add: enroll_biometric_def Let_def split: option.split prod.split)
qed

lemma enroll_fingerprint_primary_unique:
  assumes "primary_unique db"
  shows "primary_unique (snd (enroll_fingerprint e uid fp db))"
proof -
  let ?deact = "\<lambda>t::'a BiometricTemplate.
                  if user_id t = uid \<and> biometric_type t = FINGERPRINT \<and> is_active t
                  then t\<lparr>is_active := False, is_primary := False\<rparr> else t"
  have step: "primary_unique (map ?deact db @ [new])"
    if "user_id new = uid" "biometric_type new = FINGERPRINT" for new
    unfolding primary_unique_iff
  proof (intro allI)
    fix u m
    show "length (filter (active_primary u m) (map ?deact db @ [new])) \<le> 1"
    proof (cases "u = uid \<and> m = FINGERPRINT")
      case True
      have "filter (active_primary u m) (map ?deact db) = []"
        by (rule filter_map_empty) (auto simp add: True active_primary_def)
      then show ?thesis by simp
    next
      case False
      have "length (filter (active_primary u m) (map ?deact db))
              \<le> length (filter (active_primary u m) db)"
        by (rule length_filter_map_le) (auto simp: active_primary_def split: if_splits)
      also have "\<dots> \<le> 1" using assms by (simp add: primary_unique_iff)
      finally show ?thesis using False that by (auto simp add: active_primary_def)
    qed
  qed
  show ?thesis
    using assms step
    by (simp add: enroll_fingerprint_def extract_fingerprint_features_def Let_def
          split: option.split)
qed

lemma deactivate_user_templates_primary_unique:
  assumes "primary_unique db"
  shows "primary_unique (deactivate_user_templates uid db)"
  unfolding primary_unique_iff deactivate_user_templates_def
proof (intro allI)
  fix u m
  have "length (filter (active_primary u m)
          (map (\<lambda>t. if user_id t = uid then t\<lparr>is_active := False\<rparr> else t) db))
        \<le> length (filter (active_primary u m) db)"
    by (rule length_filter_map_le) (auto simp: active_primary_def split: if_splits)
  also have "\<dots> \<le> 1" using assms by (simp add: primary_unique_iff)
  finally show "length (filter (active_primary u m)
          (map (\<lambda>t. if user_id t = uid then t\<lparr>is_active := False\<rparr> else t) db)) \<le> 1" .
qed

lemma delete_user_fingerprint_templates_primary_unique:
  assumes "primary_unique db"
  shows "primary_unique (snd (delete_user_fingerprint_templates uid db))"
  unfolding primary_unique_iff delete_user_fingerprint_templates_def snd_conv
proof (intro allI)
  fix u m
  have "length (filter (active_primary u m)
          (filter (\<lambda>t. \<not> (user_id t = uid \<and> biometric_type t = FINGERPRINT)) db))
        \<le> length (filter (active_primary u m) db)"
    by (rule length_filter_filter_le)
  also have "\<dots> \<le> 1" using assms by (simp add: primary_unique_iff)
  finally show "length (filter (active_primary u m)
          (filter (\<lambda>t. \<not> (user_id t = uid \<and> biometric_type t = FINGERPRINT)) db)) \<le> 1" .
qed

lemma find_Some_D: "find P xs = Some x \<Longrightarrow> P x"
  by (induction xs) (auto split: if_splits)

lemma set_primary_template_primary_unique:
  assumes "primary_unique (templates st)"
  shows "primary_unique (templates (snd (set_primary_template tid u st)))"
proof -
  let ?db = "templates st"
  let ?clear = "\<lambda>t::'a BiometricTemplate. if user_id t = u then t\<lparr>is_primary := False\<rparr> else t"
  let ?db1 = "map ?clear ?db"
  have upd: "primary_unique (?db1[i := (?db1 ! i)\<lparr>is_primary := True\<rparr>])"
    if own: "user_id (?db ! i) = u" for i
  proof (cases "i < length ?db")
    case False
    have "primary_unique ?db1"
      unfolding primary_unique_iff
    proof (intro allI)
      fix v m
      have "length (filter (active_primary v m) ?db1) \<le> length (filter (active_primary v m) ?db)"
        by (rule length_filter_map_le) (auto simp: active_primary_def split: if_splits)
      also have "\<dots> \<le> 1" using assms by (simp add: primary_unique_iff)
      finally show "length (filter (active_primary v m) ?db1) \<le> 1" .
    qed
    with False show ?thesis by (simp add: list_update_beyond)
  next
    case True
    let ?y = "(?db1 ! i)\<lparr>is_primary := True\<rparr>"
    have y: "user_id ?y = u" using True own by simp
    show ?thesis
      unfolding primary_unique_iff
    proof (intro allI)
      fix v m
      show "length (filter (active_primary v m) (?db1[i := ?y])) \<le> 1"
      proof (cases "v = u")
        case True
        have "filter (active_primary v m) ?db1 = []"
          by (rule filter_map_empty) (simp add: True active_primary_def)
        then show ?thesis
          using length_filter_update_le[of "active_primary v m" ?db1 i ?y] by simp
      next
        case False
        then have ny: "\<not> active_primary v m ?y" using y by (simp add: active_primary_def)
        have "length (filter (active_primary v m) (?db1[i := ?y]))
                \<le> length (filter (active_primary v m) ?db1)"
          using ny by (rule length_filter_update_le_neg)
        also have "\<dots> \<le> length (filter (active_primary v m) ?db)"
          by (rule length_filter_map_le) (auto simp: active_primary_def split: if_splits)
        also have "\<dots> \<le> 1" using assms by (simp add: primary_unique_iff)
        finally show ?thesis .
      qed
    qed
  qed
  show ?thesis
  proof (cases "find (\<lambda>i. id_tpl (?db ! i) = tid \<and> user_id (?db ! i) = u)
                  (get_user_templates u ?db)")
    case None
    then show ?thesis using assms by (simp add: set_primary_template_def Let_def)
  next
    case (Some i)
    then have "user_id (?db ! i) = u" by (auto dest: find_Some_D)
    from upd[OF this] Some assms show ?thesis
      by (simp add: set_primary_template_def Let_def)
  qed
qed

lemma step_primary_unique:
  "primary_unique (templates st) \<Longrightarrow> primary_unique (templates (step e x st))"
  by (cases x)
     (simp_all add: enroll_biometric_primary_unique enroll_fingerprint_primary_unique
        deactivate_user_templates_primary_unique
        delete_user_fingerprint_templates_primary_unique
        set_primary_template_primary_unique)

lemma run_primary_unique:
  "primary_unique (templates st) \<Longrightarrow> primary_unique (templates (run e xs st))"
  by (induction xs arbitrary: st) (simp_all add: step_primary_unique)

text \<open>
  Claim C3. From a state in which each user has, for each modality, at most one active
  primary template, every sequence of enrollments (face or fingerprint), replacement steps
  and set-primary requests leads to a state with the same property.
\<close>

theorem primary_uniqueness_preserved:
  assumes "primary_unique (templates st)"
  shows "primary_unique (templates (run e xs st))
       \<and> (\<forall>u m. length (filter (active_primary u m) (templates (run e xs st))) \<le> 1)"
  using run_primary_unique[OF assms, of e xs] by (simp add: primary_unique_iff)

theorem primary_uniqueness_preserved_witness:
  "primary_unique (templates demo_db)
   \<and> primary_unique (templates (run demo_env
        [EnrollFingerprint 1 ''ab'', EnrollFace 1 ''a'', SetPrimary 1 1,
         DeactivateTemplates 1, EnrollFace 1 ''b''] demo_db))
   \<and> length (filter (active_primary 1 FACE) (templates (run demo_env
        [EnrollFingerprint 1 ''ab'', EnrollFace 1 ''a'', SetPrimary 1 1,
         DeactivateTemplates 1, EnrollFace 1 ''b''] demo_db))) \<le> 1"
proof -
  have h: "primary_unique (templates demo_db)"
    by (simp add: primary_unique_def active_primary_def demo_db_def demo_template_def)
  show ?thesis
    using h primary_uniqueness_preserved[OF h, of demo_env
        "[EnrollFingerprint 1 ''ab'', EnrollFace 1 ''a'', SetPrimary 1 1,
          DeactivateTemplates 1, EnrollFace 1 ''b'']"]
    by blast
qed


section \<open>The enrollment flag\<close>








text \<open>
  The enrollment at registration (\<^verbatim>\<open>app/routers/auth.py\<close>, lines 111 to 119), which
  runs the face enrollment for the user and sets the flag when it succeeded, keeps the
  flag consistent too.
\<close>

lemma enroll_biometric_has_active:
  "has_active v (snd (enroll_biometric e u video db))
     \<longleftrightarrow> has_active v db \<or> (v = u \<and> success (fst (enroll_biometric e u video db)))"
  by (auto simp: enroll_biometric_def has_active_def result_def Let_def
        split: option.splits prod.splits if_splits)

lemma registration_enrollment_consistent:
  assumes "enrolled_consistent v st"
  shows "enrolled_consistent v
           (if success (fst (enroll_biometric e u video (templates st)))
            then \<lparr>templates = snd (enroll_biometric e u video (templates st)),
                  is_enrolled = (is_enrolled st)(u := True)\<rparr>
            else st\<lparr>templates := snd (enroll_biometric e u video (templates st))\<rparr>)"
  using assms by (auto simp: enrolled_consistent_def enroll_biometric_has_active)



end
